theory Spec2Isabelle
  imports Complex_Main
begin

section \<open>Scene numbering: the override store, the XEM cache and its refresh\<close>

text \<open>
  A shallow embedding of \<^verbatim>\<open>sickbeard/scene_numbering.py\<close>. The two SQLite databases, the
  HTTP client and the clock are outside that file; they appear here as an explicit
  \<open>world\<close> that every function takes and returns, and as parameters (what an endpoint
  answers, what the clock reads, what an INSERT does on a taken primary key or with a
  value that is not an integer).
\<close>

subsection \<open>Python values\<close>

text \<open>
  Arguments such as \<^verbatim>\<open>indexer_id\<close>, \<^verbatim>\<open>season\<close> and \<^verbatim>\<open>episode\<close> may be \<^verbatim>\<open>None\<close>: they are
  \<open>int option\<close>. A returned tuple \<^verbatim>\<open>(season, episode)\<close> is a pair of such values, and a
  function that returns either a tuple or \<^verbatim>\<open>None\<close> returns a \<open>numbering option\<close>.
\<close>

type_synonym numbering = "int option \<times> int option"

datatype exn =
    KeyError | TypeError | ValueError | ConnectionError | IntegrityError | InterfaceError

text \<open>The truth value Python gives a result that is a 2-tuple or \<^verbatim>\<open>None\<close>: a tuple of
  two elements is not empty, so it is true whatever it holds.\<close>

fun truthy :: "numbering option \<Rightarrow> bool" where
  "truthy None = False"
| "truthy (Some t) = True"

text \<open>\<^verbatim>\<open>int(x)\<close> of a float truncates towards zero.\<close>

definition py_int :: "real \<Rightarrow> int" where
  "py_int x = (if x < 0 then \<lceil>x\<rceil> else \<lfloor>x\<rfloor>)"

text \<open>
  A decoded JSON document, as \<^verbatim>\<open>requests.get(url).json()\<close> returns it. Numbers are
  integers (the season and episode numbers of the payload are); \<open>JDict\<close> lists the
  members of an object, each key once.
\<close>

datatype json =
    JNull | JBool bool | JNum int | JStr string | JList "json list"
  | JDict "(string \<times> json) list"

fun py_truthy :: "json \<Rightarrow> bool" where
  "py_truthy JNull = False"
| "py_truthy (JBool b) = b"
| "py_truthy (JNum n) = (n \<noteq> 0)"
| "py_truthy (JStr s) = (s \<noteq> [])"
| "py_truthy (JList xs) = (xs \<noteq> [])"
| "py_truthy (JDict kvs) = (kvs \<noteq> [])"

text \<open>\<^verbatim>\<open>v[k]\<close> for a string key: only a dict can be subscripted by a string.\<close>

fun py_getitem :: "json \<Rightarrow> string \<Rightarrow> exn + json" where
  "py_getitem (JDict kvs) k = (case map_of kvs k of None \<Rightarrow> Inl KeyError | Some v \<Rightarrow> Inr v)"
| "py_getitem v k = Inl TypeError"

fun starts_with :: "string \<Rightarrow> string \<Rightarrow> bool" where
  "starts_with [] s = True"
| "starts_with (c # cs) [] = False"
| "starts_with (c # cs) (d # ds) = (c = d \<and> starts_with cs ds)"

fun str_contains :: "string \<Rightarrow> string \<Rightarrow> bool" where
  "str_contains k [] = (k = [])"
| "str_contains k (d # ds) = (starts_with k (d # ds) \<or> str_contains k ds)"

text \<open>\<^verbatim>\<open>k in v\<close> for a string \<open>k\<close>: a substring test on a string, membership in a list,
  key membership in a dict, and a TypeError on anything that is not a container.\<close>

fun py_in :: "string \<Rightarrow> json \<Rightarrow> exn + bool" where
  "py_in k (JStr s) = Inr (str_contains k s)"
| "py_in k (JList xs) = Inr (JStr k \<in> set xs)"
| "py_in k (JDict kvs) = Inr (k \<in> set (map fst kvs))"
| "py_in k v = Inl TypeError"

text \<open>\<^verbatim>\<open>for entry in v\<close>: the elements of a list, the keys of a dict, the characters of a
  string.\<close>

fun py_iter :: "json \<Rightarrow> exn + json list" where
  "py_iter (JList xs) = Inr xs"
| "py_iter (JDict kvs) = Inr (map (\<lambda>kv. JStr (fst kv)) kvs)"
| "py_iter (JStr s) = Inr (map (\<lambda>c. JStr [c]) s)"
| "py_iter v = Inl TypeError"

subsection \<open>The stores\<close>

text \<open>
  Both numbering tables have the columns \<^verbatim>\<open>indexer_id, season, episode, scene_season,
  scene_episode\<close>, all INTEGER, with the primary key \<^verbatim>\<open>(indexer_id, season, episode)\<close>. A
  table is the list of its rows, oldest first. The refresh marker table has the primary
  key \<^verbatim>\<open>indexer_id\<close> and is written by INSERT OR REPLACE only: it is a map from the show to
  the value stored, which is the float that \<^verbatim>\<open>time.time()\<close> returned.
\<close>

record row =
  col_indexer_id :: int
  col_season :: int
  col_episode :: int
  col_scene_season :: int
  col_scene_episode :: int

datatype endpoint = TheXem | TVTumbler

record world =
  schema_created :: bool
  tbl_scene_numbering :: "row list"
  tbl_xem_numbering :: "row list"
  tbl_xem_refresh :: "int \<rightharpoonup> real"
  http_log :: "(endpoint \<times> int) list"

definition row_key :: "row \<Rightarrow> int \<times> int \<times> int" where
  "row_key r = (col_indexer_id r, col_season r, col_episode r)"

text \<open>
  Modelled from the spec: the datastore layer (\<^verbatim>\<open>sickbeard.db\<close>) is not part of the
  sources. SELECT and DELETE with a WHERE clause keep, respectively drop, the rows that
  satisfy it. The spec leaves open what a plain INSERT does when the primary key is
  already taken ("silently lets a second insert for the same key fail or overwrite"), so
  that outcome is a parameter: the statement raises, the new row is dropped, or the new
  row replaces the old one.
\<close>

datatype conflict = ConflictRaises | ConflictIgnored | ConflictOverwrites

definition db_insert :: "conflict \<Rightarrow> row \<Rightarrow> row list \<Rightarrow> exn + row list" where
  "db_insert pol r tbl =
     (if row_key r \<in> set (map row_key tbl) then
        (case pol of
           ConflictRaises \<Rightarrow> Inl IntegrityError
         | ConflictIgnored \<Rightarrow> Inr tbl
         | ConflictOverwrites \<Rightarrow> Inr (filter (\<lambda>x. row_key x \<noteq> row_key r) tbl @ [r]))
      else Inr (tbl @ [r]))"

text \<open>
  The same absent layer decides what is stored when a value that is not an integer is
  bound to one of the INTEGER columns (SQLite converts some values and keeps others as
  they are; the driver refuses some). A JSON integer is stored as it is; for any other
  value the outcome is the parameter \<open>bind_other\<close>. The tables here hold integers, as the
  columns are declared.
\<close>

record datastore =
  on_conflict :: conflict
  bind_other :: "json \<Rightarrow> exn + int"

definition bind_int :: "datastore \<Rightarrow> json \<Rightarrow> exn + int" where
  "bind_int db v = (case v of JNum n \<Rightarrow> Inr n | _ \<Rightarrow> bind_other db v)"

text \<open>\<^verbatim>\<open>_check_for_schema\<close>: CREATE TABLE IF NOT EXISTS changes no existing table; the
  flag records that it ran.\<close>

definition check_for_schema :: "world \<Rightarrow> world" where
  "check_for_schema w = (if \<not> schema_created w then w\<lparr>schema_created := True\<rparr> else w)"

subsection \<open>The remote endpoints\<close>

text \<open>
  What \<^verbatim>\<open>requests.get(url).json()\<close> does for an endpoint and a show: it raises (the
  connection fails, or the body is not JSON), or it returns the decoded body. Every GET
  is recorded in \<open>http_log\<close>.
\<close>

datatype response = Raises exn | Returns json

type_synonym network = "endpoint \<Rightarrow> int \<Rightarrow> response"

definition http_get_json :: "network \<Rightarrow> endpoint \<Rightarrow> int \<Rightarrow> world \<Rightarrow> response \<times> world" where
  "http_get_json net ep i w = (net ep i, w\<lparr>http_log := http_log w @ [(ep, i)]\<rparr>)"

subsection \<open>The override store\<close>

text \<open>\<^verbatim>\<open>find_scene_numbering\<close>: the override for a key, and the input pair when there is
  none, or when an argument is \<^verbatim>\<open>None\<close>.\<close>

definition find_scene_numbering ::
  "int option \<Rightarrow> int option \<Rightarrow> int option \<Rightarrow> world \<Rightarrow> numbering option \<times> world" where
  "find_scene_numbering indexer_id season episode w =
     (case (indexer_id, season, episode) of
        (Some i, Some s, Some e) \<Rightarrow>
          (let w1 = check_for_schema w;
               rows = filter (\<lambda>r. col_indexer_id r = i \<and> col_season r = s \<and> col_episode r = e)
                        (tbl_scene_numbering w1)
           in (case rows of
                 r # rest \<Rightarrow> (Some (Some (col_scene_season r), Some (col_scene_episode r)), w1)
               | [] \<Rightarrow> (Some (season, episode), w1)))
      | _ \<Rightarrow> (Some (season, episode), w))"

text \<open>\<^verbatim>\<open>set_scene_numbering\<close>: DELETE the key's row, then INSERT when both scene values are
  given. The exception, if the INSERT raises one, is returned with the world as it then is.\<close>

definition set_scene_numbering ::
  "datastore \<Rightarrow> int option \<Rightarrow> int option \<Rightarrow> int option \<Rightarrow> int option \<Rightarrow> int option \<Rightarrow> world
     \<Rightarrow> exn option \<times> world" where
  "set_scene_numbering db indexer_id season episode sceneSeason sceneEpisode w =
     (case (indexer_id, season, episode) of
        (Some i, Some s, Some e) \<Rightarrow>
          (let w1 = check_for_schema w;
               w2 = w1\<lparr>tbl_scene_numbering :=
                        filter (\<lambda>r. \<not> (col_indexer_id r = i \<and> col_season r = s \<and> col_episode r = e))
                          (tbl_scene_numbering w1)\<rparr>
           in (case (sceneSeason, sceneEpisode) of
                 (Some ss, Some se) \<Rightarrow>
                   (case db_insert (on_conflict db)
                           \<lparr>col_indexer_id = i, col_season = s, col_episode = e,
                            col_scene_season = ss, col_scene_episode = se\<rparr>
                           (tbl_scene_numbering w2) of
                      Inl x \<Rightarrow> (Some x, w2)
                    | Inr t \<Rightarrow> (None, w2\<lparr>tbl_scene_numbering := t\<rparr>))
               | _ \<Rightarrow> (None, w2)))
      | _ \<Rightarrow> (None, w))"

subsection \<open>The refresh policy and the fetcher\<close>

definition MAX_XEM_AGE_SECS :: int where
  "MAX_XEM_AGE_SECS = 86400"

text \<open>\<^verbatim>\<open>_xem_refresh_needed\<close>; \<open>now\<close> is what \<^verbatim>\<open>time.time()\<close> returns in this call.\<close>

definition xem_refresh_needed :: "real \<Rightarrow> int option \<Rightarrow> world \<Rightarrow> bool \<times> world" where
  "xem_refresh_needed now indexer_id w =
     (case indexer_id of
        None \<Rightarrow> (False, w)
      | Some i \<Rightarrow>
          (let w1 = check_for_schema w
           in (case tbl_xem_refresh w1 i of
                 Some last_refreshed \<Rightarrow>
                   (now > real_of_int (py_int last_refreshed + MAX_XEM_AGE_SECS), w1)
               | None \<Rightarrow> (True, w1))))"

text \<open>
  The parameter list of one INSERT into \<^verbatim>\<open>xem_numbering\<close>, read from an entry of the
  payload from left to right: \<^verbatim>\<open>entry['tvdb']['season']\<close>, \<^verbatim>\<open>entry['tvdb']['episode']\<close>,
  \<^verbatim>\<open>entry[k]['season']\<close>, \<^verbatim>\<open>entry[k]['episode']\<close>, where \<open>k\<close> is \<^verbatim>\<open>'scene'\<close> or
  \<^verbatim>\<open>'scene_2'\<close>. The first subscript that fails raises. The four values are then bound
  to the statement as they are, with no check by the code (\<open>bind_int\<close>).
\<close>

definition subscript2 :: "json \<Rightarrow> string \<Rightarrow> string \<Rightarrow> exn + json" where
  "subscript2 v k1 k2 = (case py_getitem v k1 of Inl x \<Rightarrow> Inl x | Inr u \<Rightarrow> py_getitem u k2)"

text \<open>Sequencing of steps that may raise: the first exception ends the sequence.\<close>

definition and_then :: "exn + 'a \<Rightarrow> ('a \<Rightarrow> exn + 'b) \<Rightarrow> exn + 'b" where
  "and_then m f = (case m of Inl x \<Rightarrow> Inl x | Inr v \<Rightarrow> f v)"

definition entry_row :: "datastore \<Rightarrow> int \<Rightarrow> string \<Rightarrow> json \<Rightarrow> exn + row" where
  "entry_row db i k entry =
     and_then (subscript2 entry ''tvdb'' ''season'') (\<lambda>a.
     and_then (subscript2 entry ''tvdb'' ''episode'') (\<lambda>b.
     and_then (subscript2 entry k ''season'') (\<lambda>c.
     and_then (subscript2 entry k ''episode'') (\<lambda>d.
     and_then (bind_int db a) (\<lambda>s.
     and_then (bind_int db b) (\<lambda>e.
     and_then (bind_int db c) (\<lambda>ss.
     and_then (bind_int db d) (\<lambda>se.
       Inr \<lparr>col_indexer_id = i, col_season = s, col_episode = e,
            col_scene_season = ss, col_scene_episode = se\<rparr>))))))))"

text \<open>One \<^verbatim>\<open>if k in entry: cacheDB.action("INSERT INTO xem_numbering ...")\<close>.\<close>

definition insert_if_in :: "datastore \<Rightarrow> int \<Rightarrow> string \<Rightarrow> json \<Rightarrow> world \<Rightarrow> exn option \<times> world" where
  "insert_if_in db i k entry w =
     (case py_in k entry of
        Inl x \<Rightarrow> (Some x, w)
      | Inr False \<Rightarrow> (None, w)
      | Inr True \<Rightarrow>
          (case entry_row db i k entry of
             Inl x \<Rightarrow> (Some x, w)
           | Inr r \<Rightarrow>
               (case db_insert (on_conflict db) r (tbl_xem_numbering w) of
                  Inl x \<Rightarrow> (Some x, w)
                | Inr t \<Rightarrow> (None, w\<lparr>tbl_xem_numbering := t\<rparr>))))"

text \<open>The loop \<^verbatim>\<open>for entry in result['data']\<close>: it stops at the first exception, with
  the rows inserted so far in place.\<close>

fun insert_entries :: "datastore \<Rightarrow> int \<Rightarrow> json list \<Rightarrow> world \<Rightarrow> exn option \<times> world" where
  "insert_entries db i [] w = (None, w)"
| "insert_entries db i (entry # rest) w =
     (case insert_if_in db i ''scene'' entry w of
        (Some x, w1) \<Rightarrow> (Some x, w1)
      | (None, w1) \<Rightarrow>
          (case insert_if_in db i ''scene_2'' entry w1 of
             (Some x, w2) \<Rightarrow> (Some x, w2)
           | (None, w2) \<Rightarrow> insert_entries db i rest w2))"

text \<open>The part of \<^verbatim>\<open>_xem_refresh\<close> from \<^verbatim>\<open>result = data\<close> on; \<open>now\<close> is what
  \<^verbatim>\<open>time.time()\<close> returns when the marker is written.\<close>

definition store_result :: "datastore \<Rightarrow> real \<Rightarrow> int \<Rightarrow> json \<Rightarrow> world \<Rightarrow> exn option \<times> world" where
  "store_result db now i result w =
     (if py_truthy result then
        (let w1 = check_for_schema w;
             w2 = w1\<lparr>tbl_xem_refresh := (tbl_xem_refresh w1)(i \<mapsto> now)\<rparr>
         in (case py_getitem result ''result'' of
               Inl x \<Rightarrow> (Some x, w2)
             | Inr indicator \<Rightarrow>
                 (case py_in ''success'' indicator of
                    Inl x \<Rightarrow> (Some x, w2)
                  | Inr True \<Rightarrow>
                      (let w3 = w2\<lparr>tbl_xem_numbering :=
                                    filter (\<lambda>r. col_indexer_id r \<noteq> i) (tbl_xem_numbering w2)\<rparr>
                       in (case py_getitem result ''data'' of
                             Inl x \<Rightarrow> (Some x, w3)
                           | Inr d \<Rightarrow>
                               (case py_iter d of
                                  Inl x \<Rightarrow> (Some x, w3)
                                | Inr entries \<Rightarrow> insert_entries db i entries w3)))
                  | Inr False \<Rightarrow>
                      (case py_getitem result ''message'' of
                         Inl x \<Rightarrow> (Some x, w2)
                       | Inr m \<Rightarrow> (None, w2)))))
      else (None, w))"

text \<open>\<^verbatim>\<open>data is None or data == ''\<close>.\<close>

definition no_data :: "json \<Rightarrow> bool" where
  "no_data data = (data = JNull \<or> data = JStr [])"

text \<open>
  The first part of the \<^verbatim>\<open>try\<close> of \<^verbatim>\<open>_xem_refresh\<close>, up to \<^verbatim>\<open>result = data\<close>: the GET to
  thexem.de and, when that returns no data, the GET to TVTumbler. The outcome is the
  exception raised (\<open>Inl\<close>), or \<open>Inr None\<close> for "giving up" (the \<^verbatim>\<open>return None\<close>), or the
  data obtained.
\<close>

definition fetch_data :: "network \<Rightarrow> int \<Rightarrow> world \<Rightarrow> (exn + json option) \<times> world" where
  "fetch_data net i w =
     (case http_get_json net TheXem i w of
        (Raises x, w1) \<Rightarrow> (Inl x, w1)
      | (Returns data, w1) \<Rightarrow>
          (if no_data data then
             (case http_get_json net TVTumbler i w1 of
                (Raises x, w2) \<Rightarrow> (Inl x, w2)
              | (Returns data2, w2) \<Rightarrow>
                  (if no_data data2 then (Inr None, w2) else (Inr (Some data2), w2)))
           else (Inr (Some data), w1)))"

text \<open>The whole body of the \<^verbatim>\<open>try\<close>: the exception it raises, if any, and the world at
  that moment.\<close>

definition xem_refresh_try :: "datastore \<Rightarrow> network \<Rightarrow> real \<Rightarrow> int \<Rightarrow> world \<Rightarrow> exn option \<times> world" where
  "xem_refresh_try db net now i w =
     (case fetch_data net i w of
        (Inl x, w1) \<Rightarrow> (Some x, w1)
      | (Inr None, w1) \<Rightarrow> (None, w1)
      | (Inr (Some result), w1) \<Rightarrow> store_result db now i result w1)"

text \<open>\<^verbatim>\<open>_xem_refresh\<close>: the handler logs the exception and returns; nothing is undone.\<close>

definition xem_refresh :: "datastore \<Rightarrow> network \<Rightarrow> real \<Rightarrow> int option \<Rightarrow> world \<Rightarrow> world" where
  "xem_refresh db net now indexer_id w =
     (case indexer_id of
        None \<Rightarrow> w
      | Some i \<Rightarrow> snd (xem_refresh_try db net now i w))"

text \<open>\<^verbatim>\<open>if _xem_refresh_needed(indexer_id): _xem_refresh(indexer_id)\<close>, with the two clock
  readings of the call: \<open>t_check\<close> for the staleness test and \<open>t_mark\<close> for the marker.\<close>

definition refresh_if_needed ::
  "datastore \<Rightarrow> network \<Rightarrow> real \<Rightarrow> real \<Rightarrow> int option \<Rightarrow> world \<Rightarrow> world" where
  "refresh_if_needed db net t_check t_mark indexer_id w =
     (case xem_refresh_needed t_check indexer_id w of
        (True, w1) \<Rightarrow> xem_refresh db net t_mark indexer_id w1
      | (False, w1) \<Rightarrow> w1)"

subsection \<open>Lookups in the cache\<close>

definition find_xem_numbering ::
  "datastore \<Rightarrow> network \<Rightarrow> real \<Rightarrow> real \<Rightarrow> int option \<Rightarrow> int option \<Rightarrow> int option \<Rightarrow> world
     \<Rightarrow> numbering option \<times> world" where
  "find_xem_numbering db net t_check t_mark indexer_id season episode w =
     (case (indexer_id, season, episode) of
        (Some i, Some s, Some e) \<Rightarrow>
          (let w1 = check_for_schema w;
               w2 = refresh_if_needed db net t_check t_mark indexer_id w1;
               rows = filter (\<lambda>r. col_indexer_id r = i \<and> col_season r = s \<and> col_episode r = e)
                        (tbl_xem_numbering w2)
           in (case rows of
                 r # rest \<Rightarrow> (Some (Some (col_scene_season r), Some (col_scene_episode r)), w2)
               | [] \<Rightarrow> (None, w2)))
      | _ \<Rightarrow> (None, w))"

definition get_indexer_numbering_for_xem ::
  "datastore \<Rightarrow> network \<Rightarrow> real \<Rightarrow> real \<Rightarrow> int option \<Rightarrow> int option \<Rightarrow> int option \<Rightarrow> world
     \<Rightarrow> numbering option \<times> world" where
  "get_indexer_numbering_for_xem db net t_check t_mark indexer_id sceneSeason sceneEpisode w =
     (case (indexer_id, sceneSeason, sceneEpisode) of
        (Some i, Some ss, Some se) \<Rightarrow>
          (let w1 = check_for_schema w;
               w2 = refresh_if_needed db net t_check t_mark indexer_id w1;
               rows = filter (\<lambda>r. col_indexer_id r = i \<and> col_scene_season r = ss
                                     \<and> col_scene_episode r = se)
                        (tbl_xem_numbering w2)
           in (case rows of
                 r # rest \<Rightarrow> (Some (Some (col_season r), Some (col_episode r)), w2)
               | [] \<Rightarrow> (Some (sceneSeason, sceneEpisode), w2)))
      | _ \<Rightarrow> (None, w))"

text \<open>\<^verbatim>\<open>result.setdefault(k, []).append(v)\<close> on a dict of lists.\<close>

definition setdefault_append :: "(int \<rightharpoonup> int list) \<Rightarrow> int \<Rightarrow> int \<Rightarrow> (int \<rightharpoonup> int list)" where
  "setdefault_append d k v = d(k \<mapsto> (case d k of None \<Rightarrow> [] | Some l \<Rightarrow> l) @ [v])"

fun collect_seasons :: "row list \<Rightarrow> (int \<rightharpoonup> int list) \<Rightarrow> (int \<rightharpoonup> int list)" where
  "collect_seasons [] d = d"
| "collect_seasons (r # rest) d =
     collect_seasons rest (setdefault_append d (col_season r) (col_scene_season r))"

definition get_xem_numbering_for_season ::
  "datastore \<Rightarrow> network \<Rightarrow> real \<Rightarrow> real \<Rightarrow> int option \<Rightarrow> int option \<Rightarrow> world
     \<Rightarrow> (int \<rightharpoonup> int list) \<times> world" where
  "get_xem_numbering_for_season db net t_check t_mark indexer_id season w =
     (case (indexer_id, season) of
        (Some i, Some s) \<Rightarrow>
          (let w1 = check_for_schema w;
               w2 = refresh_if_needed db net t_check t_mark indexer_id w1;
               rows = filter (\<lambda>r. col_indexer_id r = i \<and> col_season r = s) (tbl_xem_numbering w2)
           in (if rows \<noteq> [] then (collect_seasons rows Map.empty, w2)
               else (setdefault_append Map.empty s s, w2)))
      | _ \<Rightarrow> (Map.empty, w))"

subsection \<open>The resolver\<close>

definition get_scene_numbering ::
  "datastore \<Rightarrow> network \<Rightarrow> real \<Rightarrow> real \<Rightarrow> int option \<Rightarrow> int option \<Rightarrow> int option \<Rightarrow> bool \<Rightarrow> world
     \<Rightarrow> numbering option \<times> world" where
  "get_scene_numbering db net t_check t_mark indexer_id season episode fallback_to_xem w =
     (if indexer_id = None \<or> season = None \<or> episode = None then (Some (season, episode), w)
      else
        (case find_scene_numbering indexer_id season episode w of (result, w1) \<Rightarrow>
           if truthy result then (result, w1)
           else if fallback_to_xem then
             (case find_xem_numbering db net t_check t_mark indexer_id season episode w1 of
                (xem_result, w2) \<Rightarrow>
                  if truthy xem_result then (xem_result, w2)
                  else (Some (season, episode), w2))
           else (Some (season, episode), w1)))"

definition get_indexer_numbering ::
  "datastore \<Rightarrow> network \<Rightarrow> real \<Rightarrow> real \<Rightarrow> int option \<Rightarrow> int option \<Rightarrow> int option \<Rightarrow> bool \<Rightarrow> world
     \<Rightarrow> numbering option \<times> world" where
  "get_indexer_numbering db net t_check t_mark indexer_id sceneSeason sceneEpisode fallback_to_xem w =
     (case (indexer_id, sceneSeason, sceneEpisode) of
        (Some i, Some ss, Some se) \<Rightarrow>
          (let w1 = check_for_schema w;
               rows = filter (\<lambda>r. col_indexer_id r = i \<and> col_scene_season r = ss
                                     \<and> col_scene_episode r = se)
                        (tbl_scene_numbering w1)
           in (case rows of
                 r # rest \<Rightarrow> (Some (Some (col_season r), Some (col_episode r)), w1)
               | [] \<Rightarrow>
                   (if fallback_to_xem then
                      get_indexer_numbering_for_xem db net t_check t_mark
                        indexer_id sceneSeason sceneEpisode w1
                    else (Some (sceneSeason, sceneEpisode), w1))))
      | _ \<Rightarrow> (Some (sceneSeason, sceneEpisode), w))"

subsection \<open>The documented payload and the rows it asks for\<close>












subsection \<open>Concrete worlds, payloads and networks\<close>

text \<open>A datastore whose INSERT raises on a taken key and which refuses every value that
  is not an integer. No run below binds such a value.\<close>

definition strict_store :: datastore where
  "strict_store = \<lparr>on_conflict = ConflictRaises, bind_other = (\<lambda>v. Inl InterfaceError)\<rparr>"



text \<open>A world with nothing stored; one whose cache holds a mapping of show 1 with the
  marker written at second 1000; one that holds an override of show 1; one whose cache
  holds rows of two shows; one whose cache holds three rows of show 1 in two seasons.\<close>

definition empty_world :: world where
  "empty_world =
     \<lparr>schema_created = False, tbl_scene_numbering = [], tbl_xem_numbering = [],
      tbl_xem_refresh = Map.empty, http_log = []\<rparr>"

definition cached_world :: world where
  "cached_world =
     \<lparr>schema_created = True, tbl_scene_numbering = [],
      tbl_xem_numbering =
        [\<lparr>col_indexer_id = 1, col_season = 1, col_episode = 1,
          col_scene_season = 2, col_scene_episode = 5\<rparr>],
      tbl_xem_refresh = [1 \<mapsto> 1000], http_log = []\<rparr>"

definition override_world :: world where
  "override_world =
     \<lparr>schema_created = True,
      tbl_scene_numbering =
        [\<lparr>col_indexer_id = 1, col_season = 1, col_episode = 1,
          col_scene_season = 7, col_scene_episode = 7\<rparr>],
      tbl_xem_numbering = [], tbl_xem_refresh = Map.empty, http_log = []\<rparr>"


definition season_world :: world where
  "season_world =
     \<lparr>schema_created = True, tbl_scene_numbering = [],
      tbl_xem_numbering =
        [\<lparr>col_indexer_id = 1, col_season = 1, col_episode = 1,
          col_scene_season = 1, col_scene_episode = 1\<rparr>,
         \<lparr>col_indexer_id = 1, col_season = 1, col_episode = 2,
          col_scene_season = 2, col_scene_episode = 1\<rparr>,
         \<lparr>col_indexer_id = 1, col_season = 2, col_episode = 1,
          col_scene_season = 2, col_scene_episode = 2\<rparr>],
      tbl_xem_refresh = [1 \<mapsto> 1000], http_log = []\<rparr>"

text \<open>A success payload with one entry, which maps (1, 1) to the scene pair (2, 5), and a
  payload that says success and has no \<^verbatim>\<open>data\<close> member.\<close>

definition good_entries :: "json list" where
  "good_entries =
     [JDict [(''scene'', JDict [(''season'', JNum 2), (''episode'', JNum 5)]),
             (''tvdb'', JDict [(''season'', JNum 1), (''episode'', JNum 1)])]]"

definition good_payload :: json where
  "good_payload = JDict [(''result'', JStr ''success''), (''data'', JList good_entries)]"


definition dataless_payload :: json where
  "dataless_payload = JDict [(''result'', JStr ''success'')]"




text \<open>
  Networks: every request fails; thexem.de answers with the success payload; the body
  thexem.de sends cannot be decoded while TVTumbler is healthy; thexem.de answers with
  JSON \<^verbatim>\<open>null\<close> while TVTumbler is healthy; every endpoint answers with the payload
  that has a double; every endpoint answers with the payload without \<^verbatim>\<open>data\<close>.
\<close>

definition no_network :: network where
  "no_network ep i = Raises ConnectionError"

definition xem_network :: network where
  "xem_network ep i =
     (case ep of TheXem \<Rightarrow> Returns good_payload | TVTumbler \<Rightarrow> Raises ConnectionError)"

definition unparseable_primary :: network where
  "unparseable_primary ep i =
     (case ep of TheXem \<Rightarrow> Raises ValueError | TVTumbler \<Rightarrow> Returns good_payload)"

definition null_primary :: network where
  "null_primary ep i =
     (case ep of TheXem \<Rightarrow> Returns JNull | TVTumbler \<Rightarrow> Returns good_payload)"


definition dataless_network :: network where
  "dataless_network ep i = Returns dataless_payload"

text \<open>The empty world after a refresh of show 1 from \<open>xem_network\<close> at clock reading 100.5.\<close>

definition refreshed_world :: world where
  "refreshed_world = xem_refresh strict_store xem_network (201 / 2) (Some 1) empty_world"

section \<open>Properties of the override store and the resolver\<close>

lemma check_for_schema_tables [simp]:
  "tbl_scene_numbering (check_for_schema w) = tbl_scene_numbering w"
  "tbl_xem_numbering (check_for_schema w) = tbl_xem_numbering w"
  "tbl_xem_refresh (check_for_schema w) = tbl_xem_refresh w"
  "http_log (check_for_schema w) = http_log w"
  by (simp_all add: check_for_schema_def)

text \<open>What \<^verbatim>\<open>find_scene_numbering\<close> returns is a tuple on every path, hence true.\<close>

lemma find_scene_numbering_truthy:
  "truthy (fst (find_scene_numbering indexer_id season episode w))"
  by (simp add: find_scene_numbering_def Let_def split: option.splits list.splits)

lemma find_scene_numbering_miss:
  assumes "(i, s, e) \<notin> set (map row_key (tbl_scene_numbering w))"
  shows "fst (find_scene_numbering (Some i) (Some s) (Some e) w) = Some (Some s, Some e)"
proof -
  have "filter (\<lambda>r. col_indexer_id r = i \<and> col_season r = s \<and> col_episode r = e)
          (tbl_scene_numbering w) = []"
    using assms by (auto simp: filter_empty_conv row_key_def)
  then show ?thesis
    by (simp add: find_scene_numbering_def Let_def)
qed

text \<open>So the \<^verbatim>\<open>if result:\<close> of \<^verbatim>\<open>get_scene_numbering\<close> always takes its first branch.\<close>

lemma get_scene_numbering_eq_find:
  "get_scene_numbering db net t1 t2 (Some i) (Some s) (Some e) fb w
     = find_scene_numbering (Some i) (Some s) (Some e) w"
  using find_scene_numbering_truthy [of "Some i" "Some s" "Some e" w]
  by (cases "find_scene_numbering (Some i) (Some s) (Some e) w")
     (simp add: get_scene_numbering_def)

lemma tbl_scene_numbering_find_scene_numbering:
  "tbl_scene_numbering (snd (find_scene_numbering indexer_id season episode w))
     = tbl_scene_numbering w"
  by (simp add: find_scene_numbering_def Let_def split: option.splits list.splits)

text \<open>The table that \<^verbatim>\<open>set_scene_numbering\<close> leaves: the rows of other keys in their
  order, then the new row when both scene values are given. The INSERT never raises,
  whatever the store does on a taken key, because the key was just deleted.\<close>

lemma set_scene_numbering_table:
  "set_scene_numbering db (Some i) (Some s) (Some e) sceneSeason sceneEpisode w =
     (None,
      (check_for_schema w)\<lparr>tbl_scene_numbering :=
         filter (\<lambda>r. row_key r \<noteq> (i, s, e)) (tbl_scene_numbering w) @
         (case (sceneSeason, sceneEpisode) of
            (Some ss, Some se) \<Rightarrow>
              [\<lparr>col_indexer_id = i, col_season = s, col_episode = e,
                col_scene_season = ss, col_scene_episode = se\<rparr>]
          | _ \<Rightarrow> [])\<rparr>)"
  by (auto simp: set_scene_numbering_def Let_def db_insert_def row_key_def
           split: option.splits)

text \<open>
  C1 (the code at the failing input). Show 1 has no override; the cache holds the
  mapping (1, 1) to (2, 5) and its marker is fresh. \<^verbatim>\<open>find_xem_numbering\<close> finds the scene
  pair (2, 5), but \<^verbatim>\<open>get_scene_numbering\<close> with \<^verbatim>\<open>fallback_to_xem=True\<close> returns the input pair
  (1, 1): \<^verbatim>\<open>find_scene_numbering\<close> returns the input pair instead of \<^verbatim>\<open>None\<close> when there is no
  override, the tuple is true, and the fallback to the cache is never reached.
\<close>

theorem C1_fallback_to_xem_not_reached:
  "fst (get_scene_numbering strict_store no_network 1001 1001 (Some 1) (Some 1) (Some 1) True
          cached_world) = Some (Some 1, Some 1)
   \<and> fst (find_scene_numbering (Some 1) (Some 1) (Some 1) cached_world) = Some (Some 1, Some 1)
   \<and> fst (find_xem_numbering strict_store no_network 1001 1001 (Some 1) (Some 1) (Some 1)
            cached_world) = Some (Some 2, Some 5)"
  by (simp add: get_scene_numbering_def find_scene_numbering_def find_xem_numbering_def
        refresh_if_needed_def xem_refresh_needed_def cached_world_def check_for_schema_def
        py_int_def MAX_XEM_AGE_SECS_def Let_def)

text \<open>
  C3 (as amended). \<^verbatim>\<open>set_scene_numbering\<close> on a show, season and episode that are not
  \<^verbatim>\<open>None\<close> raises nothing, leaves the rows of every other key as they were, and leaves for
  the key itself exactly one row, holding the given scene pair, when both scene values
  are given, and no row when either of them is \<^verbatim>\<open>None\<close>.
\<close>

theorem C3_insert_only_when_both_given:
  assumes "set_scene_numbering db (Some i) (Some s) (Some e) sceneSeason sceneEpisode w = (x, w')"
  shows "x = None
       \<and> filter (\<lambda>r. row_key r \<noteq> (i, s, e)) (tbl_scene_numbering w')
           = filter (\<lambda>r. row_key r \<noteq> (i, s, e)) (tbl_scene_numbering w)
       \<and> filter (\<lambda>r. row_key r = (i, s, e)) (tbl_scene_numbering w')
           = (case (sceneSeason, sceneEpisode) of
                (Some ss, Some se) \<Rightarrow>
                  [\<lparr>col_indexer_id = i, col_season = s, col_episode = e,
                    col_scene_season = ss, col_scene_episode = se\<rparr>]
              | _ \<Rightarrow> [])"
  using assms unfolding set_scene_numbering_table
  by (auto simp: row_key_def split: option.splits)

text \<open>The theorem at the spec's example: the override (1, 1) to (7, 7) of show 1 is
  replaced by (1, 1) to (1, 101).\<close>

theorem C3_insert_only_when_both_given_witness:
  "tbl_scene_numbering
     (snd (set_scene_numbering strict_store (Some 1) (Some 1) (Some 1) (Some 1) (Some 101)
             override_world))
   = [\<lparr>col_indexer_id = 1, col_season = 1, col_episode = 1,
       col_scene_season = 1, col_scene_episode = 101\<rparr>]"
  using C3_insert_only_when_both_given
          [of strict_store 1 1 1 "Some 1" "Some 101" override_world
              "fst (set_scene_numbering strict_store (Some 1) (Some 1) (Some 1) (Some 1) (Some 101)
                      override_world)"
              "snd (set_scene_numbering strict_store (Some 1) (Some 1) (Some 1) (Some 1) (Some 101)
                      override_world)"]
  by (simp add: set_scene_numbering_table override_world_def row_key_def)

text \<open>
  C3 (the claim as stated fails). With the scene season given and the scene episode
  \<^verbatim>\<open>None\<close>, the override of the key is deleted and nothing is inserted: no record is left,
  where the claim promises exactly one.
\<close>

theorem C3_one_scene_value_counterexample:
  "tbl_scene_numbering
     (snd (set_scene_numbering strict_store (Some 1) (Some 1) (Some 1) (Some 3) None
             override_world)) = []"
  by (simp add: set_scene_numbering_table override_world_def row_key_def)

text \<open>
  C5. For a show, season and episode that are not \<^verbatim>\<open>None\<close> and have no override record,
  \<^verbatim>\<open>get_scene_numbering\<close> returns the input pair (a tuple, never \<^verbatim>\<open>None\<close>), whatever the flag,
  the cache and the network are; in particular when the cache has no mapping for the key
  either.
\<close>

theorem C5_identity_without_mapping:
  assumes "(i, s, e) \<notin> set (map row_key (tbl_scene_numbering w))"
  shows "fst (get_scene_numbering db net t_check t_mark (Some i) (Some s) (Some e) fallback_to_xem w)
           = Some (Some s, Some e)"
  by (simp add: get_scene_numbering_eq_find find_scene_numbering_miss [OF assms])

theorem C5_identity_without_mapping_witness:
  "(7, 2, 3) \<notin> set (map row_key (tbl_scene_numbering empty_world))
   \<and> fst (get_scene_numbering strict_store no_network 0 0 (Some 7) (Some 2) (Some 3) True
            empty_world) = Some (Some 2, Some 3)"
  using C5_identity_without_mapping [of 7 2 3 empty_world strict_store no_network 0 0 True]
  by (simp add: empty_world_def)

text \<open>
  C6. After \<^verbatim>\<open>set_scene_numbering\<close> with a scene pair that is not \<^verbatim>\<open>None\<close> (which raises
  nothing), \<^verbatim>\<open>get_scene_numbering\<close> for the same key returns that scene pair, whatever the
  cache holds and whatever the flag is.
\<close>

theorem C6_override_wins:
  "fst (set_scene_numbering db (Some i) (Some s) (Some e) (Some ss) (Some se) w) = None
   \<and> fst (get_scene_numbering db net t_check t_mark (Some i) (Some s) (Some e) fallback_to_xem
            (snd (set_scene_numbering db (Some i) (Some s) (Some e) (Some ss) (Some se) w)))
       = Some (Some ss, Some se)"
  unfolding set_scene_numbering_table get_scene_numbering_eq_find
  by (simp add: find_scene_numbering_def Let_def row_key_def)

text \<open>The theorem on a world whose cache maps the same key to another scene pair.\<close>

theorem C6_override_wins_witness:
  "fst (get_scene_numbering strict_store no_network 1001 1001 (Some 1) (Some 1) (Some 1) True
          (snd (set_scene_numbering strict_store (Some 1) (Some 1) (Some 1) (Some 1) (Some 101)
                  cached_world)))
     = Some (Some 1, Some 101)"
  using C6_override_wins [of strict_store 1 1 1 1 101 cached_world no_network 1001 1001 True]
  by simp

text \<open>
  C7. Write the scene pair of a key with \<^verbatim>\<open>set_scene_numbering\<close>, and let the override store
  then hold that record and no other. On that world \<^verbatim>\<open>get_scene_numbering\<close> for the key
  returns a pair, namely the scene pair written, and \<^verbatim>\<open>get_indexer_numbering\<close> applied to the
  two components of that pair (to the world that the first call leaves) returns the key's
  season and episode. Both calls answer from the override store, so the cache and the
  network play no part.
\<close>

theorem C7_roundtrip:
  assumes "tbl_scene_numbering
             (snd (set_scene_numbering db (Some i) (Some s) (Some e) (Some ss) (Some se) w0))
           = [\<lparr>col_indexer_id = i, col_season = s, col_episode = e,
               col_scene_season = ss, col_scene_episode = se\<rparr>]"
  shows "fst (get_scene_numbering db net t_check t_mark (Some i) (Some s) (Some e) fallback
                (snd (set_scene_numbering db (Some i) (Some s) (Some e) (Some ss) (Some se) w0)))
           = Some (Some ss, Some se)
       \<and> (case get_scene_numbering db net t_check t_mark (Some i) (Some s) (Some e) fallback
                  (snd (set_scene_numbering db (Some i) (Some s) (Some e) (Some ss) (Some se) w0)) of
             (Some (sceneSeason, sceneEpisode), w1) \<Rightarrow>
               fst (get_indexer_numbering db net t_check' t_mark' (Some i) sceneSeason sceneEpisode
                      fallback' w1) = Some (Some s, Some e)
           | (None, w1) \<Rightarrow> False)"
proof -
  let ?w = "snd (set_scene_numbering db (Some i) (Some s) (Some e) (Some ss) (Some se) w0)"
  obtain r w1 where found: "find_scene_numbering (Some i) (Some s) (Some e) ?w = (r, w1)"
    by (cases "find_scene_numbering (Some i) (Some s) (Some e) ?w")
  have r: "r = Some (Some ss, Some se)"
    using found assms by (simp add: find_scene_numbering_def Let_def)
  have "tbl_scene_numbering w1 = tbl_scene_numbering ?w"
    using found tbl_scene_numbering_find_scene_numbering [of "Some i" "Some s" "Some e" ?w]
    by simp
  then have inv: "fst (get_indexer_numbering db net t_check' t_mark' (Some i) (Some ss) (Some se)
                          fallback' w1) = Some (Some s, Some e)"
    using assms by (simp add: get_indexer_numbering_def Let_def)
  show ?thesis
    using inv by (simp add: get_scene_numbering_eq_find found r)
qed

text \<open>The theorem at the spec's example, the override (1, 1) to (1, 101) of show 1: the
  pair that \<^verbatim>\<open>get_scene_numbering\<close> returns is unpacked and passed on.\<close>

theorem C7_roundtrip_witness:
  "(case get_scene_numbering strict_store no_network 0 0 (Some 1) (Some 1) (Some 1) True
           (snd (set_scene_numbering strict_store (Some 1) (Some 1) (Some 1) (Some 1) (Some 101)
                   empty_world)) of
      (Some (sceneSeason, sceneEpisode), w1) \<Rightarrow>
        fst (get_indexer_numbering strict_store no_network 0 0 (Some 1) sceneSeason sceneEpisode
               True w1)
    | (None, w1) \<Rightarrow> None)
   = Some (Some 1, Some 1)"
proof -
  have tbl: "tbl_scene_numbering
               (snd (set_scene_numbering strict_store (Some 1) (Some 1) (Some 1) (Some 1) (Some 101)
                       empty_world))
             = [\<lparr>col_indexer_id = 1, col_season = 1, col_episode = 1,
                 col_scene_season = 1, col_scene_episode = 101\<rparr>]"
    by (simp add: set_scene_numbering_table empty_world_def)
  show ?thesis
    using C7_roundtrip [OF tbl, of no_network 0 0 True 0 0 True]
    by (auto split: prod.splits option.splits)
qed

section \<open>Properties of the refresh\<close>

subsection \<open>What each step leaves alone\<close>

text \<open>Fetching writes the request log and nothing else, and the first request goes to
  thexem.de.\<close>

lemma fetch_data_frame:
  "snd (fetch_data net i w) = w\<lparr>http_log := http_log (snd (fetch_data net i w))\<rparr>"
  by (simp add: fetch_data_def http_get_json_def split: response.splits)

lemma fetch_data_fields:
  "tbl_scene_numbering (snd (fetch_data net i w)) = tbl_scene_numbering w"
  "tbl_xem_numbering (snd (fetch_data net i w)) = tbl_xem_numbering w"
  "tbl_xem_refresh (snd (fetch_data net i w)) = tbl_xem_refresh w"
  by (subst fetch_data_frame, simp)+

lemma fetch_data_log:
  "\<exists>rest. http_log (snd (fetch_data net i w)) = http_log w @ (TheXem, i) # rest"
  by (simp add: fetch_data_def http_get_json_def split: response.splits)




lemma insert_if_in_frame:
  "snd (insert_if_in db i k entry w)
     = w\<lparr>tbl_xem_numbering := tbl_xem_numbering (snd (insert_if_in db i k entry w))\<rparr>"
  by (simp add: insert_if_in_def split: sum.splits bool.splits)


text \<open>The loop over the entries: induction on the entries, for any starting world.\<close>

lemma insert_entries_frame:
  "snd (insert_entries db i entries w)
     = w\<lparr>tbl_xem_numbering := tbl_xem_numbering (snd (insert_entries db i entries w))\<rparr>"
proof (induction entries arbitrary: w)
  case Nil
  show ?case by simp
next
  case (Cons entry rest)
  obtain x1 w1 where s1: "insert_if_in db i ''scene'' entry w = (x1, w1)"
    by (cases "insert_if_in db i ''scene'' entry w")
  obtain x2 w2 where s2: "insert_if_in db i ''scene_2'' entry w1 = (x2, w2)"
    by (cases "insert_if_in db i ''scene_2'' entry w1")
  have f1: "w1 = w\<lparr>tbl_xem_numbering := tbl_xem_numbering w1\<rparr>"
    using insert_if_in_frame [of db i "''scene''" entry w] s1 by simp
  have f2: "w2 = w1\<lparr>tbl_xem_numbering := tbl_xem_numbering w2\<rparr>"
    using insert_if_in_frame [of db i "''scene_2''" entry w1] s2 by simp
  have f12: "w2 = w\<lparr>tbl_xem_numbering := tbl_xem_numbering w2\<rparr>"
    by (subst f2, subst f1) simp
  show ?case
  proof (cases x1)
    case (Some x)
    then show ?thesis using s1 f1 by simp
  next
    case None
    note n1 = this
    show ?thesis
    proof (cases x2)
      case (Some x)
      then show ?thesis using s1 s2 n1 f12 by simp
    next
      case None
      have "snd (insert_entries db i rest w2)
              = w2\<lparr>tbl_xem_numbering := tbl_xem_numbering (snd (insert_entries db i rest w2))\<rparr>"
        by (rule Cons.IH)
      also have "\<dots> = w\<lparr>tbl_xem_numbering := tbl_xem_numbering (snd (insert_entries db i rest w2))\<rparr>"
        by (subst f12) simp
      finally show ?thesis using s1 s2 n1 None by simp
    qed
  qed
qed

lemma insert_entries_fields:
  "tbl_scene_numbering (snd (insert_entries db i entries w)) = tbl_scene_numbering w"
  "tbl_xem_refresh (snd (insert_entries db i entries w)) = tbl_xem_refresh w"
  "http_log (snd (insert_entries db i entries w)) = http_log w"
  by (subst insert_entries_frame, simp)+


text \<open>Storing a result: the override table and the request log are untouched, the marker
  is written exactly when the result is true, and the rows of other shows stay.\<close>

lemma store_result_fields:
  "tbl_scene_numbering (snd (store_result db now i result w)) = tbl_scene_numbering w"
  "http_log (snd (store_result db now i result w)) = http_log w"
  by (simp_all add: store_result_def Let_def insert_entries_fields split: sum.splits bool.splits)

lemma store_result_marker:
  "tbl_xem_refresh (snd (store_result db now i result w))
     = (if py_truthy result then (tbl_xem_refresh w)(i \<mapsto> now) else tbl_xem_refresh w)"
  by (simp add: store_result_def Let_def insert_entries_fields split: sum.splits bool.splits)


subsection \<open>The refresh by the outcome of the fetch\<close>

lemma xem_refresh_try_raises:
  "fst (fetch_data net i w) = Inl x \<Longrightarrow>
     xem_refresh_try db net now i w = (Some x, snd (fetch_data net i w))"
  by (cases "fetch_data net i w") (simp add: xem_refresh_try_def)

lemma xem_refresh_try_stores:
  "fst (fetch_data net i w) = Inr (Some result) \<Longrightarrow>
     xem_refresh_try db net now i w = store_result db now i result (snd (fetch_data net i w))"
  by (cases "fetch_data net i w") (simp add: xem_refresh_try_def)

lemma xem_refresh_try_log:
  "http_log (snd (xem_refresh_try db net now i w)) = http_log (snd (fetch_data net i w))"
  by (cases "fetch_data net i w")
     (simp add: xem_refresh_try_def store_result_fields split: sum.splits option.splits)

lemma xem_refresh_marker:
  assumes "fst (fetch_data net i w) = Inr (Some result)" and "py_truthy result"
  shows "tbl_xem_refresh (xem_refresh db net now (Some i) w) = (tbl_xem_refresh w)(i \<mapsto> now)"
  using assms(2)
  by (simp add: xem_refresh_def xem_refresh_try_stores [OF assms(1)] store_result_marker
        fetch_data_fields)

subsection \<open>The staleness test\<close>

lemma xem_refresh_needed_fst:
  "fst (xem_refresh_needed t (Some i) w)
     = (case tbl_xem_refresh w i of
          None \<Rightarrow> True
        | Some m \<Rightarrow> t > real_of_int (py_int m + MAX_XEM_AGE_SECS))"
  by (simp add: xem_refresh_needed_def Let_def split: option.splits)

lemma xem_refresh_needed_snd:
  "snd (xem_refresh_needed t (Some i) w) = check_for_schema w"
  by (simp add: xem_refresh_needed_def Let_def split: option.splits)

lemma refresh_if_needed_cases:
  "refresh_if_needed db net t t' (Some i) w =
     (if fst (xem_refresh_needed t (Some i) w)
      then snd (xem_refresh_try db net t' i (check_for_schema w))
      else check_for_schema w)"
  using xem_refresh_needed_snd [of t i w]
  by (cases "xem_refresh_needed t (Some i) w")
     (simp add: refresh_if_needed_def xem_refresh_def split: bool.splits)

lemma refresh_if_needed_stale_log:
  assumes "fst (xem_refresh_needed t (Some i) w)"
  shows "\<exists>rest. http_log (refresh_if_needed db net t t' (Some i) w)
                  = http_log w @ (TheXem, i) # rest"
  using assms fetch_data_log [of net i "check_for_schema w"]
  by (simp add: refresh_if_needed_cases xem_refresh_try_log)

lemma refresh_if_needed_fresh_log:
  "\<not> fst (xem_refresh_needed t (Some i) w) \<Longrightarrow>
     http_log (refresh_if_needed db net t t' (Some i) (check_for_schema w)) = http_log w"
  by (simp add: refresh_if_needed_cases xem_refresh_needed_fst)

text \<open>The definitions that a run of the refresh on a concrete world unfolds.\<close>

lemmas eval_defs =
  xem_refresh_def xem_refresh_try_def fetch_data_def http_get_json_def no_data_def
  store_result_def insert_if_in_def entry_row_def subscript2_def and_then_def db_insert_def
  row_key_def check_for_schema_def Let_def xem_refresh_needed_def refresh_if_needed_def
  py_int_def MAX_XEM_AGE_SECS_def find_xem_numbering_def bind_int_def strict_store_def

subsection \<open>Exceptions during a refresh\<close>

text \<open>
  C2 (as amended). A refresh attempt in which fetching raises (the GET to thexem.de, the
  decoding of its body, or the same at TVTumbler when that is consulted) is a refresh
  that raises that exception; it leaves the refresh marker, the cached rows and the
  overrides as they were. So the staleness test answers after it as it did before it at
  every clock reading, and the next lookup of a show that is STALE sends a GET to
  thexem.de again.
\<close>

theorem C2_fetch_exception_leaves_cache:
  assumes "fst (fetch_data net i w) = Inl x"
  shows "fst (xem_refresh_try db net now i w) = Some x
       \<and> tbl_xem_refresh (xem_refresh db net now (Some i) w) = tbl_xem_refresh w
       \<and> tbl_xem_numbering (xem_refresh db net now (Some i) w) = tbl_xem_numbering w
       \<and> tbl_scene_numbering (xem_refresh db net now (Some i) w) = tbl_scene_numbering w
       \<and> fst (xem_refresh_needed t (Some i) (xem_refresh db net now (Some i) w))
           = fst (xem_refresh_needed t (Some i) w)
       \<and> (fst (xem_refresh_needed t (Some i) w) \<longrightarrow>
            (\<exists>rest. http_log (refresh_if_needed db net' t t' (Some i)
                                 (xem_refresh db net now (Some i) w))
                      = http_log (xem_refresh db net now (Some i) w) @ (TheXem, i) # rest))"
proof -
  let ?w' = "xem_refresh db net now (Some i) w"
  have w': "?w' = snd (fetch_data net i w)"
    by (simp add: xem_refresh_def xem_refresh_try_raises [OF assms])
  have marker: "tbl_xem_refresh ?w' = tbl_xem_refresh w"
    by (simp add: w' fetch_data_fields)
  have needed: "fst (xem_refresh_needed t (Some i) ?w') = fst (xem_refresh_needed t (Some i) w)"
    by (simp only: xem_refresh_needed_fst marker)
  show ?thesis
    using refresh_if_needed_stale_log [of t i ?w' db net' t']
    by (simp add: xem_refresh_try_raises [OF assms] marker needed) (simp add: w' fetch_data_fields)
qed

text \<open>The theorem on a stale show whose primary endpoint sends a body that cannot be
  decoded: marker and rows are as before, and the show is still STALE.\<close>

theorem C2_fetch_exception_leaves_cache_witness:
  "fst (fetch_data unparseable_primary 1 cached_world) = Inl ValueError
   \<and> tbl_xem_refresh (xem_refresh strict_store unparseable_primary 90000 (Some 1) cached_world)
        = tbl_xem_refresh cached_world
   \<and> tbl_xem_numbering (xem_refresh strict_store unparseable_primary 90000 (Some 1) cached_world)
        = tbl_xem_numbering cached_world
   \<and> fst (xem_refresh_needed 90001 (Some 1)
            (xem_refresh strict_store unparseable_primary 90000 (Some 1) cached_world))"
proof -
  have h: "fst (fetch_data unparseable_primary 1 cached_world) = Inl ValueError"
    by (simp add: fetch_data_def http_get_json_def unparseable_primary_def)
  have n: "fst (xem_refresh_needed 90001 (Some 1) cached_world)"
    by (simp add: xem_refresh_needed_def cached_world_def check_for_schema_def py_int_def
          MAX_XEM_AGE_SECS_def)
  show ?thesis
    using C2_fetch_exception_leaves_cache [OF h, of strict_store 90000 90001] h n
    by simp
qed

text \<open>
  C2 (the claim as stated fails). The payload says success and has no \<^verbatim>\<open>data\<close> member. The
  marker is written and the rows of the show are deleted before \<^verbatim>\<open>result['data']\<close> raises
  KeyError; the handler undoes nothing. After the attempt, which raised, the marker of
  show 1 holds the new time 90000 instead of 1000 and the cached row of show 1 is gone.
\<close>

theorem C2_exception_after_marker_counterexample:
  "fst (xem_refresh_try strict_store dataless_network 90000 1 cached_world) = Some KeyError
   \<and> tbl_xem_refresh cached_world 1 = Some 1000
   \<and> tbl_xem_refresh (xem_refresh strict_store dataless_network 90000 (Some 1) cached_world) 1
        = Some 90000
   \<and> tbl_xem_numbering cached_world \<noteq> []
   \<and> tbl_xem_numbering (xem_refresh strict_store dataless_network 90000 (Some 1) cached_world)
        = []"
  by (simp add: eval_defs dataless_network_def dataless_payload_def cached_world_def)

text \<open>
  C4 (the code at the failing input). The body that thexem.de sends cannot be decoded, so
  \<^verbatim>\<open>requests.get(...).json()\<close> raises ValueError, and TVTumbler is healthy. The refresh
  sends the one GET to thexem.de and none to TVTumbler, raises ValueError into the
  handler and writes no marker. When thexem.de answers with JSON \<^verbatim>\<open>null\<close> instead, the
  refresh does go on to TVTumbler.
\<close>

theorem C4_no_mirror_after_exception:
  "http_log (xem_refresh strict_store unparseable_primary 5000 (Some 1) empty_world)
     = [(TheXem, 1)]
   \<and> fst (xem_refresh_try strict_store unparseable_primary 5000 1 empty_world) = Some ValueError
   \<and> tbl_xem_refresh (xem_refresh strict_store unparseable_primary 5000 (Some 1) empty_world) 1
        = None
   \<and> http_log (xem_refresh strict_store null_primary 5000 (Some 1) empty_world)
        = [(TheXem, 1), (TVTumbler, 1)]"
  by (simp add: eval_defs unparseable_primary_def null_primary_def empty_world_def
        good_payload_def good_entries_def)

subsection \<open>The staleness window\<close>

text \<open>
  C8 (as amended). A show without a marker is STALE. A refresh that obtains a result that
  is true writes the marker with the clock reading \<open>now\<close>. A show whose marker holds \<open>m\<close> is
  STALE exactly at the clock readings later than \<^verbatim>\<open>int(m) + 86400\<close>, where \<^verbatim>\<open>int(m)\<close> is \<open>m\<close>
  cut to whole seconds; at every reading up to that the show is FRESH, the refresh step
  of a lookup does nothing but the schema check, and the lookups send no request.
\<close>

theorem C8_fresh_within_window_of_truncated_marker:
  "(tbl_xem_refresh w i = None \<longrightarrow> fst (xem_refresh_needed t (Some i) w))
   \<and> (fst (fetch_data net i w) = Inr (Some result) \<and> py_truthy result \<longrightarrow>
        tbl_xem_refresh (xem_refresh db net now (Some i) w) i = Some now)
   \<and> (tbl_xem_refresh w i = Some m \<longrightarrow>
        fst (xem_refresh_needed t (Some i) w) = (real_of_int (py_int m) + 86400 < t))
   \<and> (tbl_xem_refresh w i = Some m \<and> t \<le> real_of_int (py_int m) + 86400 \<longrightarrow>
        refresh_if_needed db net t t' (Some i) w = check_for_schema w
        \<and> http_log (snd (find_xem_numbering db net t t' (Some i) season episode w)) = http_log w
        \<and> http_log (snd (get_indexer_numbering_for_xem db net t t' (Some i) season episode w))
            = http_log w
        \<and> http_log (snd (get_xem_numbering_for_season db net t t' (Some i) season w))
            = http_log w)"
proof (intro conjI impI)
  assume "tbl_xem_refresh w i = None"
  then show "fst (xem_refresh_needed t (Some i) w)"
    by (simp add: xem_refresh_needed_fst)
next
  assume "fst (fetch_data net i w) = Inr (Some result) \<and> py_truthy result"
  then show "tbl_xem_refresh (xem_refresh db net now (Some i) w) i = Some now"
    by (simp add: xem_refresh_marker)
next
  assume "tbl_xem_refresh w i = Some m"
  then show "fst (xem_refresh_needed t (Some i) w) = (real_of_int (py_int m) + 86400 < t)"
    by (simp add: xem_refresh_needed_fst MAX_XEM_AGE_SECS_def)
next
  assume a: "tbl_xem_refresh w i = Some m \<and> t \<le> real_of_int (py_int m) + 86400"
  then have fresh: "\<not> fst (xem_refresh_needed t (Some i) w)"
    by (simp add: xem_refresh_needed_fst MAX_XEM_AGE_SECS_def)
  show "refresh_if_needed db net t t' (Some i) w = check_for_schema w"
    using fresh by (simp add: refresh_if_needed_cases)
  have log: "http_log (refresh_if_needed db net t t' (Some i) (check_for_schema w)) = http_log w"
    by (rule refresh_if_needed_fresh_log [OF fresh])
  show "http_log (snd (find_xem_numbering db net t t' (Some i) season episode w)) = http_log w"
    using log by (simp add: find_xem_numbering_def Let_def split: option.splits list.splits)
  show "http_log (snd (get_indexer_numbering_for_xem db net t t' (Some i) season episode w))
          = http_log w"
    using log
    by (simp add: get_indexer_numbering_for_xem_def Let_def split: option.splits list.splits)
  show "http_log (snd (get_xem_numbering_for_season db net t t' (Some i) season w)) = http_log w"
    using log by (simp add: get_xem_numbering_for_season_def Let_def split: option.splits)
qed

text \<open>The theorem on the empty world, refreshed at clock reading 100.5: the show is STALE
  before, the marker holds 100.5 after, and a lookup at 86500 (which is
  \<^verbatim>\<open>int(100.5) + 86400\<close>) finds the show FRESH and sends no request.\<close>

theorem C8_fresh_within_window_of_truncated_marker_witness:
  "tbl_xem_refresh empty_world 1 = None
   \<and> fst (xem_refresh_needed 0 (Some 1) empty_world)
   \<and> tbl_xem_refresh refreshed_world 1 = Some (201 / 2)
   \<and> (86500 :: real) \<le> real_of_int (py_int (201 / 2)) + 86400
   \<and> \<not> fst (xem_refresh_needed 86500 (Some 1) refreshed_world)
   \<and> http_log (snd (find_xem_numbering strict_store xem_network 86500 86500
                       (Some 1) (Some 1) (Some 1) refreshed_world))
        = http_log refreshed_world"
proof -
  have f: "fst (fetch_data xem_network 1 empty_world) = Inr (Some good_payload) \<and> py_truthy good_payload"
    by (simp add: fetch_data_def http_get_json_def xem_network_def no_data_def good_payload_def)
  have m: "tbl_xem_refresh refreshed_world 1 = Some (201 / 2)"
    using C8_fresh_within_window_of_truncated_marker
            [of empty_world 1 0 xem_network good_payload strict_store "201 / 2"] f
    by (simp add: refreshed_world_def)
  have t: "(86500 :: real) \<le> real_of_int (py_int (201 / 2)) + 86400"
    by (simp add: py_int_def)
  have e: "tbl_xem_refresh empty_world 1 = None"
    by (simp add: empty_world_def)
  show ?thesis
    using C8_fresh_within_window_of_truncated_marker
            [of refreshed_world 1 86500 xem_network good_payload strict_store "201 / 2"
                "201 / 2" 86500 "Some 1" "Some 1"]
          C8_fresh_within_window_of_truncated_marker
            [of empty_world 1 0 xem_network good_payload strict_store "201 / 2"]
          m t e
    by simp
qed

text \<open>
  C8 (the claim as stated fails). The refresh at clock reading 100.5 writes the marker
  100.5. A lookup at 86500.25 comes 86399.75 seconds after the marker, which is within
  86400 seconds of it; but \<^verbatim>\<open>int(100.5) + 86400\<close> is 86500, the reading is later than that,
  so the show is STALE and the lookup sends a GET to thexem.de.
\<close>

theorem C8_stale_within_86400_seconds_counterexample:
  "tbl_xem_refresh refreshed_world 1 = Some (201 / 2)
   \<and> (201 / 2 :: real) \<le> 346001 / 4
   \<and> (346001 / 4 :: real) - 201 / 2 \<le> 86400
   \<and> fst (xem_refresh_needed (346001 / 4) (Some 1) refreshed_world)
   \<and> http_log (snd (find_xem_numbering strict_store xem_network (346001 / 4) (346001 / 4)
                       (Some 1) (Some 1) (Some 1) refreshed_world))
        = http_log refreshed_world @ [(TheXem, 1)]"
  by (simp add: refreshed_world_def eval_defs xem_network_def empty_world_def good_payload_def
        good_entries_def)

subsection \<open>A success payload replaces the rows of its show\<close>



















subsection \<open>The scene seasons of a season\<close>

lemma collect_seasons_one_season:
  assumes "\<And>r. r \<in> set rows \<Longrightarrow> col_season r = s"
  shows "collect_seasons rows d =
           (if rows = [] then d
            else d(s \<mapsto> (case d s of None \<Rightarrow> [] | Some l \<Rightarrow> l) @ map col_scene_season rows))"
  using assms
proof (induction rows arbitrary: d)
  case Nil
  show ?case by simp
next
  case (Cons r rest)
  have r: "col_season r = s" and rest: "\<And>x. x \<in> set rest \<Longrightarrow> col_season x = s"
    using Cons.prems by simp_all
  show ?case
    by (auto simp: Cons.IH [OF rest] r setdefault_append_def fun_eq_iff)
qed

text \<open>
  C10. \<^verbatim>\<open>get_xem_numbering_for_season\<close> for a show and a season that are not \<^verbatim>\<open>None\<close> first
  refreshes the show if it is STALE (if it is FRESH the cache is read as it is). Let \<open>rows\<close>
  be the cached rows of the show in that season as the call reads them. The dict returned
  has the season as its only key; when there are such rows its list holds the scene season
  of each of them, one element for each row, so as a set it is the set of scene seasons
  that the rows of the season refer to; when there is none the dict is \<^verbatim>\<open>{season: [season]}\<close>.
\<close>

theorem C10_scene_seasons_of_a_season:
  assumes "get_xem_numbering_for_season db net t t' (Some i) (Some s) w = (result, w')"
    and "rows = filter (\<lambda>r. col_indexer_id r = i \<and> col_season r = s) (tbl_xem_numbering w')"
  shows "w' = refresh_if_needed db net t t' (Some i) (check_for_schema w)
       \<and> (\<not> fst (xem_refresh_needed t (Some i) w) \<longrightarrow> tbl_xem_numbering w' = tbl_xem_numbering w)
       \<and> result = [s \<mapsto> (if rows = [] then [s] else map col_scene_season rows)]
       \<and> (rows \<noteq> [] \<longrightarrow>
            set (the (result s))
              = col_scene_season ` {r \<in> set (tbl_xem_numbering w'). col_indexer_id r = i \<and> col_season r = s})"
proof -
  have w': "w' = refresh_if_needed db net t t' (Some i) (check_for_schema w)"
    using assms(1) by (auto simp: get_xem_numbering_for_season_def Let_def split: if_splits)
  have fresh: "tbl_xem_numbering w' = tbl_xem_numbering w"
    if "\<not> fst (xem_refresh_needed t (Some i) w)"
    using that by (simp add: w' refresh_if_needed_cases xem_refresh_needed_fst)
  have one: "\<And>r. r \<in> set rows \<Longrightarrow> col_season r = s"
    by (simp add: assms(2))
  have cs: "collect_seasons rows Map.empty
              = (if rows = [] then Map.empty else [s \<mapsto> map col_scene_season rows])"
    using collect_seasons_one_season [OF one, where d = Map.empty] by simp
  have body: "result = (if rows \<noteq> [] then collect_seasons rows Map.empty
                        else setdefault_append Map.empty s s)"
    using assms(1) unfolding assms(2) w'
    by (simp add: get_xem_numbering_for_season_def Let_def split: if_splits)
  have res: "result = [s \<mapsto> (if rows = [] then [s] else map col_scene_season rows)]"
    unfolding body cs by (simp add: setdefault_append_def)
  have sets: "set (the (result s))
                = col_scene_season ` {r \<in> set (tbl_xem_numbering w'). col_indexer_id r = i \<and> col_season r = s}"
    if "rows \<noteq> []"
    using that by (simp add: res) (simp add: assms(2))
  show ?thesis using w' fresh res sets by blast
qed

text \<open>The theorem on a FRESH show whose season 1 has two cached rows, with the scene
  seasons 1 and 2, and whose season 3 has none.\<close>

theorem C10_scene_seasons_of_a_season_witness:
  "fst (get_xem_numbering_for_season strict_store no_network 1001 1001 (Some 1) (Some 1) season_world)
     = [1 \<mapsto> [1, 2]]
   \<and> fst (get_xem_numbering_for_season strict_store no_network 1001 1001 (Some 1) (Some 3) season_world)
     = [3 \<mapsto> [3]]"
proof -
  have fresh: "\<not> fst (xem_refresh_needed 1001 (Some 1) season_world)"
    by (simp add: xem_refresh_needed_def season_world_def check_for_schema_def py_int_def
          MAX_XEM_AGE_SECS_def)
  have h: "get_xem_numbering_for_season strict_store no_network 1001 1001 (Some 1) (Some s) season_world
             = (fst (get_xem_numbering_for_season strict_store no_network 1001 1001 (Some 1) (Some s)
                       season_world),
                snd (get_xem_numbering_for_season strict_store no_network 1001 1001 (Some 1) (Some s)
                       season_world))" for s
    by simp
  have t: "tbl_xem_numbering
             (snd (get_xem_numbering_for_season strict_store no_network 1001 1001 (Some 1) (Some s)
                     season_world)) = tbl_xem_numbering season_world" for s
    using C10_scene_seasons_of_a_season [OF h [of s] refl] fresh by blast
  have r: "fst (get_xem_numbering_for_season strict_store no_network 1001 1001 (Some 1) (Some s)
                  season_world)
             = [s \<mapsto> (if filter (\<lambda>r. col_indexer_id r = 1 \<and> col_season r = s)
                                (tbl_xem_numbering season_world) = [] then [s]
                         else map col_scene_season
                                (filter (\<lambda>r. col_indexer_id r = 1 \<and> col_season r = s)
                                   (tbl_xem_numbering season_world)))]" for s
    using C10_scene_seasons_of_a_season [OF h [of s] refl] unfolding t by blast
  show ?thesis
    using r [of 1] r [of 3] by (simp add: season_world_def)
qed

end
